theory Spec2Isabelle
  imports Main "HOL-Library.AList"
begin

section \<open>Manually instrumented to-do service: a shallow embedding of app.py\<close>

text \<open>
  The module has two parts. The first runs once at import: it reads two environment
  variables, refuses to go on when one of them is unset or empty, parses the header
  string into a dictionary and builds the two exporters from the result. The second is three request handlers (\<open>home\<close>, \<open>add\<close>,
  \<open>delete\<close>), each of which opens a span, increments the request counter, calls the
  database and sets span attributes. Exceptions are values of type \<open>exn\<close>; a computation
  that may raise returns \<open>exn + 'a\<close> with \<open>Inl\<close> for the raised exception.
\<close>

subsection \<open>Exceptions\<close>

text \<open>
  The database calls made by the handlers. Each of them is a call into SQLAlchemy and may
  raise; which ones do is decided by the environment, so every handler takes a predicate
  \<open>fails\<close> over these calls.
\<close>

datatype store_op = QueryAll | QueryGet | SessionAdd | SessionDelete | Commit

datatype exn =
    ValueError
  | BadRequestKeyError
  | AttributeError
  | DatabaseError store_op

subsection \<open>Start-up configuration (lines 18 to 52)\<close>

text \<open>\<open>not x\<close> for a value of \<open>os.getenv\<close>: true for \<open>None\<close> and for the empty string.\<close>

fun falsy :: "string option \<Rightarrow> bool" where
  "falsy None = True"
| "falsy (Some s) = (s = [])"

text \<open>
  \<open>s.split(sep)\<close> with a one-character separator: every occurrence of the separator
  cuts, empty pieces are kept, and the empty string gives one empty piece.
\<close>

fun str_split :: "char \<Rightarrow> string \<Rightarrow> string list" where
  "str_split sep [] = [[]]"
| "str_split sep (c # cs) =
     (if c = sep then [] # str_split sep cs
      else (case str_split sep cs of
              [] \<Rightarrow> [[c]]
            | piece # pieces \<Rightarrow> (c # piece) # pieces))"

text \<open>
  \<open>s.split(sep, 1)\<close>: at most one cut, at the first occurrence of the separator. The
  result has two pieces when the separator occurs and one piece otherwise.
\<close>

definition str_split1 :: "char \<Rightarrow> string \<Rightarrow> string list" where
  "str_split1 sep s =
     (if sep \<in> set s
      then [takeWhile (\<lambda>c. c \<noteq> sep) s, tl (dropWhile (\<lambda>c. c \<noteq> sep) s)]
      else [s])"

text \<open>
  \<open>dict(iterable)\<close>: every element must have exactly two components, a key and a value,
  otherwise \<open>ValueError\<close> is raised. Keys are inserted from left to right; a key seen again
  keeps its position and takes the later value, which is what \<open>AList.update\<close> does.
\<close>

fun dict_from :: "(string \<times> string) list \<Rightarrow> string list list \<Rightarrow> exn + (string \<times> string) list" where
  "dict_from d [] = Inr d"
| "dict_from d (kv # rest) =
     (case kv of
        [k, v] \<Rightarrow> dict_from (AList.update k v d) rest
      | _ \<Rightarrow> Inl ValueError)"

definition headers_dict :: "string \<Rightarrow> exn + (string \<times> string) list" where
  "headers_dict otlp_headers =
     dict_from []
       (map (str_split1 CHR '':'')
          (filter (\<lambda>item. CHR '':'' \<in> set item) (str_split CHR '','' otlp_headers)))"

record config =
  cfg_endpoint :: string
  cfg_headers :: "(string \<times> string) list"

text \<open>
  Lines 18 to 31, the module's own check and parsing: the two arguments are the values
  of \<open>OTEL_EXPORTER_OTLP_ENDPOINT\<close> and \<open>OTEL_EXPORTER_OTLP_HEADERS\<close>, \<open>None\<close> when the
  variable is unset. The result is the endpoint and the header dictionary that the rest
  of the module body hands to both exporters.
\<close>

definition read_config :: "string option \<Rightarrow> string option \<Rightarrow> exn + config" where
  "read_config otlp_endpoint otlp_headers =
     (if falsy otlp_endpoint \<or> falsy otlp_headers then Inl ValueError
      else (case (otlp_endpoint, otlp_headers) of
              (Some ep, Some hs) \<Rightarrow>
                (case headers_dict hs of
                   Inl e \<Rightarrow> Inl e
                 | Inr d \<Rightarrow> Inr \<lparr>cfg_endpoint = ep, cfg_headers = d\<rparr>)
            | _ \<Rightarrow> Inl ValueError))"

text \<open>
  The two exporters are built from these values in the same module body (lines 38 to 41
  and 49 to 52). Their constructors are library code: each is a parameter here, a
  function of the endpoint and the header dictionary that gives the exception it raises,
  or \<open>None\<close> when it returns. The other module-level statements (resource, providers,
  meter, application object, table creation) are given neither value and are left out.
\<close>

type_synonym exporter_constructor = "string \<Rightarrow> (string \<times> string) list \<Rightarrow> exn option"

definition startup ::
  "exporter_constructor \<Rightarrow> exporter_constructor \<Rightarrow> string option \<Rightarrow> string option
   \<Rightarrow> exn + config" where
  "startup span_exporter metric_exporter otlp_endpoint otlp_headers =
     (case read_config otlp_endpoint otlp_headers of
        Inl e \<Rightarrow> Inl e
      | Inr cfg \<Rightarrow>
          (case span_exporter (cfg_endpoint cfg) (cfg_headers cfg) of
             Some e \<Rightarrow> Inl e
           | None \<Rightarrow>
               (case metric_exporter (cfg_endpoint cfg) (cfg_headers cfg) of
                  Some e \<Rightarrow> Inl e
                | None \<Rightarrow> Inr cfg)))"

text \<open>
  A constructor for concrete runs: it raises \<open>ValueError\<close> for the one endpoint given and
  returns for every other, as a constructor does that cannot parse that endpoint.
\<close>

definition rejecting_only :: "string \<Rightarrow> exporter_constructor" where
  "rejecting_only bad endpoint headers = (if endpoint = bad then Some ValueError else None)"

text \<open>
  Two notions used to state what the parser returns. \<open>header_string\<close> writes a list of
  pairs the way the environment variable carries them: \<open>key:value\<close>, joined by commas.
  A pair is plain when its key has no colon and neither component has a comma, so that
  the written form can be cut in one way only.
\<close>

fun header_string :: "(string \<times> string) list \<Rightarrow> string" where
  "header_string [] = []"
| "header_string [(k, v)] = k @ CHR '':'' # v"
| "header_string ((k, v) # kv # rest) = k @ CHR '':'' # v @ CHR '','' # header_string (kv # rest)"

definition plain_pair :: "string \<times> string \<Rightarrow> bool" where
  "plain_pair kv =
     (CHR '':'' \<notin> set (fst kv) \<and> CHR '','' \<notin> set (fst kv) \<and> CHR '','' \<notin> set (snd kv))"

subsection \<open>Telemetry state and the task table\<close>

datatype attr_value = AttrStr string | AttrInt int | AttrBool bool

text \<open>
  A span: its name, its attributes in insertion order, and how many times \<open>end()\<close> has
  been called on it.
\<close>

record span =
  span_name :: string
  attributes :: "(string \<times> attr_value) list"
  end_calls :: nat

text \<open>A row of the table behind the \<open>Task\<close> model (lines 79 to 81).\<close>

record task =
  id' :: int
  description :: string

text \<open>
  Everything the handlers read or change: the committed rows of the task table, the
  objects pending in the current database session, the spans created so far, and the
  measurements recorded on \<open>requests_counter\<close> (amount and label dictionary).
\<close>

record world =
  tasks :: "task list"
  session_new :: "string list"
  session_deleted :: "int list"
  spans :: "span list"
  requests_counter :: "(int \<times> (string \<times> string) list) list"

type_synonym 'a action = "world \<Rightarrow> (exn + 'a) \<times> world"

subsubsection \<open>Tracer and meter\<close>

text \<open>\<open>tracer.start_span(name)\<close>: a new span; the handle is its position.\<close>

definition start_span :: "string \<Rightarrow> world \<Rightarrow> nat \<times> world" where
  "start_span nm w =
     (length (spans w),
      w\<lparr>spans := spans w @ [\<lparr>span_name = nm, attributes = [], end_calls = 0\<rparr>]\<rparr>)"

text \<open>\<open>span.set_attribute(key, value)\<close>: ignored once the span has ended.\<close>

definition set_attribute :: "nat \<Rightarrow> string \<Rightarrow> attr_value \<Rightarrow> world \<Rightarrow> world" where
  "set_attribute sp k v w =
     (if sp < length (spans w) then
        (let s = spans w ! sp in
         if 0 < end_calls s then w
         else w\<lparr>spans := (spans w)[sp := s\<lparr>attributes := AList.update k v (attributes s)\<rparr>]\<rparr>)
      else w)"

definition end_span :: "nat \<Rightarrow> world \<Rightarrow> world" where
  "end_span sp w =
     (if sp < length (spans w) then
        (let s = spans w ! sp in
         w\<lparr>spans := (spans w)[sp := s\<lparr>end_calls := Suc (end_calls s)\<rparr>]\<rparr>)
      else w)"

text \<open>
  \<open>with tracer.start_span(name) as span: body\<close>. The span is the context manager: its
  \<open>__exit__\<close> calls \<open>end()\<close> and does not swallow the exception, and the \<open>with\<close>
  statement calls \<open>__exit__\<close> however the body is left.
\<close>

definition with_span :: "string \<Rightarrow> (nat \<Rightarrow> 'a action) \<Rightarrow> 'a action" where
  "with_span nm body w =
     (let (sp, w1) = start_span nm w;
          (r, w2) = body sp w1
      in (r, end_span sp w2))"

text \<open>\<open>requests_counter.add(amount, labels)\<close>.\<close>

definition counter_add :: "int \<Rightarrow> (string \<times> string) list \<Rightarrow> world \<Rightarrow> world" where
  "counter_add amount labels w = w\<lparr>requests_counter := requests_counter w @ [(amount, labels)]\<rparr>"

subsubsection \<open>Database session\<close>

text \<open>
  \<open>with app.app_context(): body\<close>. The database session is scoped to the application
  context: the body starts with an empty session, and the session is removed when the
  context is popped, whatever the body did.
\<close>

definition with_app_context :: "'a action \<Rightarrow> 'a action" where
  "with_app_context body w =
     (let (r, w1) = body (w\<lparr>session_new := [], session_deleted := []\<rparr>)
      in (r, w1\<lparr>session_new := [], session_deleted := []\<rparr>))"

definition query_all :: "(store_op \<Rightarrow> bool) \<Rightarrow> (task list) action" where
  "query_all fails w =
     (if fails QueryAll then (Inl (DatabaseError QueryAll), w) else (Inr (tasks w), w))"

text \<open>\<open>Task.query.get(task_id)\<close>: the row with that primary key, or \<open>None\<close>.\<close>

definition query_get :: "(store_op \<Rightarrow> bool) \<Rightarrow> int \<Rightarrow> (task option) action" where
  "query_get fails task_id w =
     (if fails QueryGet then (Inl (DatabaseError QueryGet), w)
      else (Inr (find (\<lambda>t. id' t = task_id) (tasks w)), w))"

definition session_add :: "(store_op \<Rightarrow> bool) \<Rightarrow> string \<Rightarrow> unit action" where
  "session_add fails descr w =
     (if fails SessionAdd then (Inl (DatabaseError SessionAdd), w)
      else (Inr (), w\<lparr>session_new := session_new w @ [descr]\<rparr>))"

definition session_delete :: "(store_op \<Rightarrow> bool) \<Rightarrow> task \<Rightarrow> unit action" where
  "session_delete fails t w =
     (if fails SessionDelete then (Inl (DatabaseError SessionDelete), w)
      else (Inr (), w\<lparr>session_deleted := session_deleted w @ [id' t]\<rparr>))"

text \<open>
  The primary key is an integer column without a value of its own: the table gives a new
  row one more than the largest key present (1 in an empty table).
\<close>

definition fresh_id :: "task list \<Rightarrow> int" where
  "fresh_id ts = foldr max (map id' ts) 0 + 1"

fun insert_rows :: "task list \<Rightarrow> string list \<Rightarrow> task list" where
  "insert_rows ts [] = ts"
| "insert_rows ts (d # ds) = insert_rows (ts @ [\<lparr>id' = fresh_id ts, description = d\<rparr>]) ds"

text \<open>\<open>db.session.commit()\<close>: writes the pending inserts and deletes, or raises.\<close>

definition commit :: "(store_op \<Rightarrow> bool) \<Rightarrow> unit action" where
  "commit fails w =
     (if fails Commit then (Inl (DatabaseError Commit), w)
      else (Inr (),
            w\<lparr>tasks := filter (\<lambda>t. id' t \<notin> set (session_deleted w))
                          (insert_rows (tasks w) (session_new w)),
              session_new := [], session_deleted := []\<rparr>))"

subsection \<open>The request handlers (lines 164 to 207)\<close>

text \<open>
  What a handler returns: the page rendered from the task list, or a redirect to a URL.
  \<open>url_for("home")\<close> is \<open>/\<close>.
\<close>

datatype response = Rendered "task list" | Redirect string

definition url_for_home :: string where
  "url_for_home = ''/''"

text \<open>\<open>request.form[key]\<close>: the first value submitted under the key, or a raise.\<close>

definition form_get :: "(string \<times> string) list \<Rightarrow> string \<Rightarrow> exn + string" where
  "form_get form k = (case map_of form k of None \<Rightarrow> Inl BadRequestKeyError | Some v \<Rightarrow> Inr v)"

text \<open>\<open>task_to_delete.description\<close> on the result of \<open>Task.query.get\<close>.\<close>

definition get_description :: "task option \<Rightarrow> exn + string" where
  "get_description t = (case t of None \<Rightarrow> Inl AttributeError | Some row \<Rightarrow> Inr (description row))"

text \<open>\<open>str(n)\<close> for an integer, as the f-string of line 198 formats the id.\<close>

fun digits :: "nat \<Rightarrow> string" where
  "digits n =
     (if n < 10 then [''0123456789'' ! n]
      else digits (n div 10) @ [''0123456789'' ! (n mod 10)])"

definition str_int :: "int \<Rightarrow> string" where
  "str_int i = (if i < 0 then CHR ''-'' # digits (nat (- i)) else digits (nat i))"

definition home :: "(store_op \<Rightarrow> bool) \<Rightarrow> response action" where
  "home fails =
     with_app_context (with_span ''home-request'' (\<lambda>sp w0.
       let w1 = counter_add 1 [(''method'', ''GET''), (''endpoint'', ''/'')] w0 in
       case query_all fails w1 of
         (Inl e, w2) \<Rightarrow> (Inl e, w2)
       | (Inr ts, w2) \<Rightarrow>
           let w3 = set_attribute sp ''tasks_retrieved.quantity'' (AttrInt (int (length ts))) w2
           in (Inr (Rendered ts), w3)))"

definition add :: "(store_op \<Rightarrow> bool) \<Rightarrow> (string \<times> string) list \<Rightarrow> response action" where
  "add fails form =
     with_app_context (with_span ''add-task'' (\<lambda>sp w0.
       let w1 = counter_add 1 [(''method'', ''POST''), (''endpoint'', ''/add'')] w0 in
       case form_get form ''task'' of
         Inl e \<Rightarrow> (Inl e, w1)
       | Inr task_description \<Rightarrow>
           let w2 = set_attribute sp ''task_description'' (AttrStr task_description) w1 in
           (case session_add fails task_description w2 of
              (Inl e, w3) \<Rightarrow> (Inl e, w3)
            | (Inr _, w3) \<Rightarrow>
                (case commit fails w3 of
                   (Inl e, w4) \<Rightarrow> (Inl e, w4)
                 | (Inr _, w4) \<Rightarrow>
                     let w5 = set_attribute sp ''added_to_db'' (AttrBool True) w4
                     in (Inr (Redirect url_for_home), w5)))))"

definition delete :: "(store_op \<Rightarrow> bool) \<Rightarrow> int \<Rightarrow> response action" where
  "delete fails task_id =
     with_app_context (with_span ''delete-task'' (\<lambda>sp w0.
       let w1 = counter_add 1
                  [(''method'', ''GET''), (''endpoint'', ''/delete/'' @ str_int task_id)] w0 in
       case query_get fails task_id w1 of
         (Inl e, w2) \<Rightarrow> (Inl e, w2)
       | (Inr task_to_delete, w2) \<Rightarrow>
           (case get_description task_to_delete of
              Inl e \<Rightarrow> (Inl e, w2)
            | Inr d \<Rightarrow>
                let w3 = set_attribute sp ''task_to_delete'' (AttrStr d) w2 in
                (case task_to_delete of
                   Some row \<Rightarrow>
                     (case session_delete fails row w3 of
                        (Inl e, w4) \<Rightarrow> (Inl e, w4)
                      | (Inr _, w4) \<Rightarrow>
                          (case commit fails w4 of
                             (Inl e, w5) \<Rightarrow> (Inl e, w5)
                           | (Inr _, w5) \<Rightarrow>
                               let w6 = set_attribute sp ''deleted_from_db'' (AttrBool True) w5
                               in (Inr (Redirect url_for_home), w6)))
                 | None \<Rightarrow> (Inr (Redirect url_for_home), w3)))))"

text \<open>A world with an empty table and no telemetry, for concrete runs.\<close>

definition empty_world :: world where
  "empty_world =
     \<lparr>tasks = [], session_new = [], session_deleted = [], spans = [], requests_counter = []\<rparr>"

definition no_fault :: "store_op \<Rightarrow> bool" where
  "no_fault op = False"

text \<open>
  The module run as a program (lines 210 to 212): the module body first, then
  \<open>app.run\<close>, which serves requests through the handlers and stands here as the
  parameter \<open>serve\<close>. An exception raised by the module body ends the program there.
\<close>

definition run_app ::
  "exporter_constructor \<Rightarrow> exporter_constructor \<Rightarrow> string option \<Rightarrow> string option
   \<Rightarrow> 'a action \<Rightarrow> 'a action" where
  "run_app span_exporter metric_exporter otlp_endpoint otlp_headers serve w =
     (case startup span_exporter metric_exporter otlp_endpoint otlp_headers of
        Inl e \<Rightarrow> (Inl e, w)
      | Inr cfg \<Rightarrow> serve w)"

section \<open>Properties\<close>

subsection \<open>Splitting and dictionary construction\<close>

lemma str_split_no_sep: "sep \<notin> set s \<Longrightarrow> str_split sep s = [s]"
  by (induction s) auto

lemma str_split_at_sep: "sep \<notin> set a \<Longrightarrow> str_split sep (a @ sep # b) = a # str_split sep b"
  by (induction a) auto

lemma str_split_pieces: "item \<in> set (str_split sep s) \<Longrightarrow> set item \<subseteq> set s"
proof (induction s arbitrary: item)
  case Nil
  then show ?case by simp
next
  case (Cons c cs)
  show ?case
  proof (cases "c = sep")
    case True
    with Cons show ?thesis by auto
  next
    case False
    show ?thesis
    proof (cases "str_split sep cs")
      case Nil
      with False Cons.prems show ?thesis by auto
    next
      case (Cons piece pieces)
      then have "piece \<in> set (str_split sep cs)" by simp
      then have sub: "set piece \<subseteq> set cs" by (rule Cons.IH)
      from False Cons Cons.prems have "item = c # piece \<or> item \<in> set (str_split sep cs)"
        by auto
      then show ?thesis
      proof
        assume "item = c # piece"
        with sub show ?thesis by auto
      next
        assume "item \<in> set (str_split sep cs)"
        then have "set item \<subseteq> set cs" by (rule Cons.IH)
        then show ?thesis by auto
      qed
    qed
  qed
qed

lemma str_split1_at_sep: "sep \<notin> set k \<Longrightarrow> str_split1 sep (k @ sep # v) = [k, v]"
  by (induction k) (auto simp: str_split1_def)

lemma dict_from_split1_total:
  "\<forall>item\<in>set items. sep \<in> set item \<Longrightarrow> \<exists>d'. dict_from d (map (str_split1 sep) items) = Inr d'"
  by (induction items arbitrary: d) (auto simp: str_split1_def)

lemma headers_dict_total: "\<exists>d. headers_dict hs = Inr d"
  unfolding headers_dict_def by (rule dict_from_split1_total) simp

lemma update_fresh_key: "k \<notin> fst ` set d \<Longrightarrow> AList.update k v d = d @ [(k, v)]"
  by (induction d) auto

lemma dict_from_distinct:
  "distinct (map fst (d @ kvs)) \<Longrightarrow>
   dict_from d (map (\<lambda>kv. [fst kv, snd kv]) kvs) = Inr (d @ kvs)"
proof (induction kvs arbitrary: d)
  case Nil
  then show ?case by simp
next
  case (Cons kv kvs)
  obtain k v where kv: "kv = (k, v)" by (cases kv)
  from Cons.prems kv have fresh: "k \<notin> fst ` set d" by auto
  from Cons.prems kv have "distinct (map fst ((d @ [(k, v)]) @ kvs))" by auto
  from Cons.IH [OF this] show ?case
    using kv fresh by (simp add: update_fresh_key)
qed

lemma headers_items:
  "list_all plain_pair kvs \<Longrightarrow>
   map (str_split1 CHR '':'')
     (filter (\<lambda>item. CHR '':'' \<in> set item) (str_split CHR '','' (header_string kvs)))
   = map (\<lambda>kv. [fst kv, snd kv]) kvs"
proof (induction kvs rule: header_string.induct)
  case 1
  show ?case by simp
next
  case (2 k v)
  then show ?case
    by (simp add: plain_pair_def str_split_no_sep str_split1_at_sep)
next
  case (3 k v kv rest)
  from "3.prems" have nc: "CHR '','' \<notin> set (k @ CHR '':'' # v)"
    by (simp add: plain_pair_def)
  have "str_split CHR '','' (header_string ((k, v) # kv # rest))
        = (k @ CHR '':'' # v) # str_split CHR '','' (header_string (kv # rest))"
    using str_split_at_sep [OF nc, of "header_string (kv # rest)"] by simp
  with 3 show ?case
    by (simp add: plain_pair_def str_split1_at_sep)
qed

lemma headers_dict_no_colon: "CHR '':'' \<notin> set hs \<Longrightarrow> headers_dict hs = Inr []"
proof -
  assume nc: "CHR '':'' \<notin> set hs"
  have "filter (\<lambda>item. CHR '':'' \<in> set item) (str_split CHR '','' hs) = []"
    using nc str_split_pieces [of _ "CHR '',''" hs] by (auto simp: filter_empty_conv)
  then show ?thesis by (simp add: headers_dict_def)
qed

lemma read_config_ok:
  "\<not> falsy (Some ep) \<Longrightarrow> \<not> falsy (Some hs) \<Longrightarrow>
   \<exists>d. headers_dict hs = Inr d \<and> read_config (Some ep) (Some hs) = Inr \<lparr>cfg_endpoint = ep, cfg_headers = d\<rparr>"
proof -
  assume a: "\<not> falsy (Some ep)" "\<not> falsy (Some hs)"
  obtain d where "headers_dict hs = Inr d" using headers_dict_total by blast
  with a show ?thesis by (simp add: read_config_def)
qed

lemma read_config_isl: "isl (read_config ep hs) = (falsy ep \<or> falsy hs)"
proof (cases "falsy ep \<or> falsy hs")
  case True
  then show ?thesis by (simp add: read_config_def)
next
  case False
  then obtain e h where "ep = Some e" "hs = Some h" by (cases ep; cases hs) auto
  with False read_config_ok [of e h] show ?thesis by auto
qed

lemma read_config_only_ValueError: "read_config ep hs = Inl e \<Longrightarrow> e = ValueError"
proof -
  assume r: "read_config ep hs = Inl e"
  then have "isl (read_config ep hs)" by simp
  then have "falsy ep \<or> falsy hs" by (simp add: read_config_isl)
  with r show ?thesis by (simp add: read_config_def)
qed

subsection \<open>What each handler returns and leaves behind\<close>

text \<open>
  For every handler: the value returned or the exception raised, the spans, the counter
  measurements and the task table afterwards, for any outcome of the database calls.
\<close>

lemmas handler_defs =
  with_app_context_def with_span_def start_span_def set_attribute_def end_span_def
  counter_add_def query_all_def query_get_def session_add_def session_delete_def commit_def
  form_get_def get_description_def url_for_home_def

lemma home_fst:
  "fst (home fails w) =
     (if fails QueryAll then Inl (DatabaseError QueryAll) else Inr (Rendered (tasks w)))"
  by (simp add: home_def handler_defs Let_def)

lemma home_spans:
  "spans (snd (home fails w)) =
     spans w @ [\<lparr>span_name = ''home-request'',
                 attributes = (if fails QueryAll then []
                               else [(''tasks_retrieved.quantity'', AttrInt (int (length (tasks w))))]),
                 end_calls = 1\<rparr>]"
  by (simp add: home_def handler_defs Let_def)

lemma home_counter:
  "requests_counter (snd (home fails w)) =
     requests_counter w @ [(1, [(''method'', ''GET''), (''endpoint'', ''/'')])]"
  by (simp add: home_def handler_defs Let_def)

lemma home_tasks: "tasks (snd (home fails w)) = tasks w"
  by (simp add: home_def handler_defs Let_def)

lemma add_fst:
  "fst (add fails form w) =
     (case map_of form ''task'' of
        None \<Rightarrow> Inl BadRequestKeyError
      | Some d \<Rightarrow>
          if fails SessionAdd then Inl (DatabaseError SessionAdd)
          else if fails Commit then Inl (DatabaseError Commit)
          else Inr (Redirect ''/''))"
  by (simp add: add_def handler_defs Let_def split: option.splits)

lemma add_spans:
  "spans (snd (add fails form w)) =
     spans w @ [\<lparr>span_name = ''add-task'',
                 attributes =
                   (case map_of form ''task'' of
                      None \<Rightarrow> []
                    | Some d \<Rightarrow>
                        (''task_description'', AttrStr d) #
                        (if fails SessionAdd \<or> fails Commit then []
                         else [(''added_to_db'', AttrBool True)])),
                 end_calls = 1\<rparr>]"
  by (simp add: add_def handler_defs Let_def split: option.splits)

lemma add_counter:
  "requests_counter (snd (add fails form w)) =
     requests_counter w @ [(1, [(''method'', ''POST''), (''endpoint'', ''/add'')])]"
  by (simp add: add_def handler_defs Let_def split: option.splits)

lemma add_tasks:
  "tasks (snd (add fails form w)) =
     (case map_of form ''task'' of
        None \<Rightarrow> tasks w
      | Some d \<Rightarrow>
          if fails SessionAdd \<or> fails Commit then tasks w
          else tasks w @ [\<lparr>id' = fresh_id (tasks w), description = d\<rparr>])"
  by (simp add: add_def handler_defs Let_def split: option.splits)

lemma delete_fst:
  "fst (delete fails task_id w) =
     (if fails QueryGet then Inl (DatabaseError QueryGet)
      else case find (\<lambda>t. id' t = task_id) (tasks w) of
             None \<Rightarrow> Inl AttributeError
           | Some row \<Rightarrow>
               if fails SessionDelete then Inl (DatabaseError SessionDelete)
               else if fails Commit then Inl (DatabaseError Commit)
               else Inr (Redirect ''/''))"
  by (simp add: delete_def handler_defs Let_def split: option.splits)

lemma delete_spans:
  "spans (snd (delete fails task_id w)) =
     spans w @ [\<lparr>span_name = ''delete-task'',
                 attributes =
                   (if fails QueryGet then []
                    else case find (\<lambda>t. id' t = task_id) (tasks w) of
                           None \<Rightarrow> []
                         | Some row \<Rightarrow>
                             (''task_to_delete'', AttrStr (description row)) #
                             (if fails SessionDelete \<or> fails Commit then []
                              else [(''deleted_from_db'', AttrBool True)])),
                 end_calls = 1\<rparr>]"
  by (simp add: delete_def handler_defs Let_def split: option.splits)

lemma delete_counter:
  "requests_counter (snd (delete fails task_id w)) =
     requests_counter w @
       [(1, [(''method'', ''GET''), (''endpoint'', ''/delete/'' @ str_int task_id)])]"
  by (simp add: delete_def handler_defs Let_def split: option.splits)

lemma delete_tasks:
  "tasks (snd (delete fails task_id w)) =
     (if fails QueryGet \<or> fails SessionDelete \<or> fails Commit then tasks w
      else case find (\<lambda>t. id' t = task_id) (tasks w) of
             None \<Rightarrow> tasks w
           | Some row \<Rightarrow> filter (\<lambda>t. id' t \<noteq> id' row) (tasks w))"
  by (simp add: delete_def handler_defs Let_def split: option.splits)

text \<open>An attribute set on a span that has ended is not recorded.\<close>

lemma set_attribute_after_end:
  "set_attribute sp k v (end_span sp w) = end_span sp w"
  by (simp add: set_attribute_def end_span_def Let_def)

subsection \<open>Start-up\<close>

text \<open>
  C4. The header string is a comma-separated list of \<open>key:value\<close> items, and the first
  colon of an item separates the key from the value: a list of plain pairs with distinct
  keys, written as a header string, is parsed back to exactly that list (a value may
  itself contain colons, which stay in the value). In particular \<open>api-key:abc123\<close> gives
  the one-entry dictionary \<open>api-key \<mapsto> abc123\<close>.
\<close>

theorem headers_dict_key_value_pairs:
  assumes "list_all plain_pair kvs" and "distinct (map fst kvs)"
  shows "headers_dict (header_string kvs) = Inr kvs
         \<and> headers_dict ''api-key:abc123'' = Inr [(''api-key'', ''abc123'')]"
proof
  from assms(2) have "distinct (map fst ([] @ kvs))" by simp
  then have "dict_from [] (map (\<lambda>kv. [fst kv, snd kv]) kvs) = Inr ([] @ kvs)"
    by (rule dict_from_distinct)
  with assms(1) show "headers_dict (header_string kvs) = Inr kvs"
    by (simp add: headers_dict_def headers_items)
next
  show "headers_dict ''api-key:abc123'' = Inr [(''api-key'', ''abc123'')]"
    by (simp add: headers_dict_def str_split1_def)
qed

theorem headers_dict_key_value_pairs_witness:
  "list_all plain_pair [(''api-key'', ''abc:123''), (''x'', '''')]
   \<and> distinct (map fst [(''api-key'', ''abc:123''), (''x'', '''')])
   \<and> header_string [(''api-key'', ''abc:123''), (''x'', '''')] = ''api-key:abc:123,x:''
   \<and> headers_dict ''api-key:abc:123,x:'' = Inr [(''api-key'', ''abc:123''), (''x'', '''')]"
proof -
  have h1: "list_all plain_pair [(''api-key'', ''abc:123''), (''x'', '''')]"
    by (simp add: plain_pair_def)
  have h2: "distinct (map fst [(''api-key'', ''abc:123''), (''x'', '''')])"
    by simp
  have h3: "header_string [(''api-key'', ''abc:123''), (''x'', '''')] = ''api-key:abc:123,x:''"
    by simp
  from headers_dict_key_value_pairs [OF h1 h2] h1 h2 h3 show ?thesis
    by simp
qed

text \<open>
  C9. An item without a colon is dropped, not reported: a non-empty header string with no
  colon at all parses to the empty dictionary and, with a non-empty endpoint, lines 18 to
  31 yield a configuration with no headers; both exporter constructors are then called
  with the endpoint and the empty dictionary, and start-up goes on when they return. A
  leading item without a colon leaves the result of the rest unchanged.
\<close>

theorem headers_without_colon_dropped:
  assumes "hs \<noteq> []" and "CHR '':'' \<notin> set hs" and "ep \<noteq> []"
  shows "headers_dict hs = Inr []
         \<and> read_config (Some ep) (Some hs) = Inr \<lparr>cfg_endpoint = ep, cfg_headers = []\<rparr>
         \<and> (CHR '','' \<notin> set hs \<longrightarrow> headers_dict (hs @ CHR '','' # rest) = headers_dict rest)
         \<and> startup span_exporter metric_exporter (Some ep) (Some hs)
             = (case span_exporter ep [] of
                  Some e \<Rightarrow> Inl e
                | None \<Rightarrow>
                    (case metric_exporter ep [] of
                       Some e \<Rightarrow> Inl e
                     | None \<Rightarrow> Inr \<lparr>cfg_endpoint = ep, cfg_headers = []\<rparr>))"
proof -
  have d: "headers_dict hs = Inr []"
    using assms(2) by (rule headers_dict_no_colon)
  have s: "read_config (Some ep) (Some hs) = Inr \<lparr>cfg_endpoint = ep, cfg_headers = []\<rparr>"
    using assms(1) assms(3) d by (simp add: read_config_def)
  have l: "CHR '','' \<notin> set hs \<longrightarrow> headers_dict (hs @ CHR '','' # rest) = headers_dict rest"
    using assms(2) by (simp add: headers_dict_def str_split_at_sep)
  have t: "startup span_exporter metric_exporter (Some ep) (Some hs)
             = (case span_exporter ep [] of
                  Some e \<Rightarrow> Inl e
                | None \<Rightarrow>
                    (case metric_exporter ep [] of
                       Some e \<Rightarrow> Inl e
                     | None \<Rightarrow> Inr \<lparr>cfg_endpoint = ep, cfg_headers = []\<rparr>))"
    using s by (simp add: startup_def split: option.splits)
  from d s l t show ?thesis by simp
qed

theorem headers_without_colon_dropped_witness:
  "''garbage,more'' \<noteq> [] \<and> CHR '':'' \<notin> set ''garbage,more'' \<and> ''http://collector:4317'' \<noteq> []
   \<and> headers_dict ''garbage,more'' = Inr []
   \<and> read_config (Some ''http://collector:4317'') (Some ''garbage,more'')
       = Inr \<lparr>cfg_endpoint = ''http://collector:4317'', cfg_headers = []\<rparr>
   \<and> startup (rejecting_only ''http://[x]:4317'') (rejecting_only ''http://[x]:4317'')
         (Some ''http://collector:4317'') (Some ''garbage,more'')
       = Inr \<lparr>cfg_endpoint = ''http://collector:4317'', cfg_headers = []\<rparr>
   \<and> CHR '','' \<notin> set ''garbage''
   \<and> headers_dict ''garbage,api-key:abc123'' = headers_dict ''api-key:abc123''"
proof -
  have h1: "''garbage,more'' \<noteq> []" by simp
  have h2: "CHR '':'' \<notin> set ''garbage,more''" by simp
  have h3: "''http://collector:4317'' \<noteq> []" by simp
  have g1: "''garbage'' \<noteq> []" by simp
  have g2: "CHR '':'' \<notin> set ''garbage''" by simp
  have g3: "CHR '','' \<notin> set ''garbage''" by simp
  have x: "rejecting_only ''http://[x]:4317'' ''http://collector:4317'' [] = None"
    by (simp add: rejecting_only_def)
  note two = headers_without_colon_dropped
    [of "''garbage,more''" "''http://collector:4317''" "[]"
        "rejecting_only ''http://[x]:4317''" "rejecting_only ''http://[x]:4317''",
     OF h1 h2 h3]
  note lead = headers_without_colon_dropped
    [of "''garbage''" "''http://collector:4317''" "''api-key:abc123''"
        "rejecting_only ''http://[x]:4317''" "rejecting_only ''http://[x]:4317''",
     OF g1 g2 h3]
  from two x
  have s: "startup (rejecting_only ''http://[x]:4317'') (rejecting_only ''http://[x]:4317'')
             (Some ''http://collector:4317'') (Some ''garbage,more'')
           = Inr \<lparr>cfg_endpoint = ''http://collector:4317'', cfg_headers = []\<rparr>"
    by simp
  from lead g3 have "headers_dict (''garbage'' @ CHR '','' # ''api-key:abc123'')
                     = headers_dict ''api-key:abc123''"
    by blast
  then have l: "headers_dict ''garbage,api-key:abc123'' = headers_dict ''api-key:abc123''"
    by simp
  from two s h1 h2 h3 g3 l show ?thesis by blast
qed

text \<open>
  C3, as far as the code goes. When one of the two variables is unset or empty the module
  raises \<open>ValueError\<close> at its own check: no exporter constructor has a say in it, and the
  program ends before serving anything, with the state untouched. That check is the only
  one the module makes: lines 18 to 31 raise exactly when a variable is unset or empty,
  the header parser returns a dictionary for every string, and for values that are set
  and non-empty start-up fails exactly when an exporter constructor raises on the
  endpoint and the parsed headers.
\<close>

theorem startup_fails_when_unset_or_empty:
  "(falsy ep \<or> falsy hs \<longrightarrow>
      startup span_exporter metric_exporter ep hs = Inl ValueError
      \<and> run_app span_exporter metric_exporter ep hs serve w = (Inl ValueError, w))
   \<and> isl (read_config ep hs) = (ep = None \<or> ep = Some [] \<or> hs = None \<or> hs = Some [])
   \<and> (\<exists>d. headers_dict h = Inr d
          \<and> (e \<noteq> [] \<and> h \<noteq> [] \<longrightarrow>
               startup span_exporter metric_exporter (Some e) (Some h)
               = (case span_exporter e d of
                    Some x \<Rightarrow> Inl x
                  | None \<Rightarrow>
                      (case metric_exporter e d of
                         Some x \<Rightarrow> Inl x
                       | None \<Rightarrow> Inr \<lparr>cfg_endpoint = e, cfg_headers = d\<rparr>))))"
proof -
  have a: "falsy ep \<or> falsy hs \<longrightarrow>
      startup span_exporter metric_exporter ep hs = Inl ValueError
      \<and> run_app span_exporter metric_exporter ep hs serve w = (Inl ValueError, w)"
  proof
    assume "falsy ep \<or> falsy hs"
    then have "read_config ep hs = Inl ValueError" by (simp add: read_config_def)
    then have "startup span_exporter metric_exporter ep hs = Inl ValueError"
      by (simp add: startup_def)
    then show "startup span_exporter metric_exporter ep hs = Inl ValueError
      \<and> run_app span_exporter metric_exporter ep hs serve w = (Inl ValueError, w)"
      by (simp add: run_app_def)
  qed
  have f: "\<And>x. falsy x = (x = None \<or> x = Some [])"
    by (case_tac x) auto
  have b: "isl (read_config ep hs) = (ep = None \<or> ep = Some [] \<or> hs = None \<or> hs = Some [])"
    by (simp add: read_config_isl f)
  obtain d where d: "headers_dict h = Inr d" using headers_dict_total by blast
  have c: "e \<noteq> [] \<and> h \<noteq> [] \<longrightarrow>
               startup span_exporter metric_exporter (Some e) (Some h)
               = (case span_exporter e d of
                    Some x \<Rightarrow> Inl x
                  | None \<Rightarrow>
                      (case metric_exporter e d of
                         Some x \<Rightarrow> Inl x
                       | None \<Rightarrow> Inr \<lparr>cfg_endpoint = e, cfg_headers = d\<rparr>))"
    using d by (simp add: startup_def read_config_def split: option.splits)
  from a b c d show ?thesis by blast
qed

theorem startup_fails_when_unset_or_empty_witness:
  "falsy (Some '''')
   \<and> startup (rejecting_only ''http://[x]:4317'') (rejecting_only ''http://[x]:4317'')
         (Some '''') (Some ''api-key:abc123'') = Inl ValueError
   \<and> run_app (rejecting_only ''http://[x]:4317'') (rejecting_only ''http://[x]:4317'')
         (Some '''') (Some ''api-key:abc123'') (home no_fault) empty_world
       = (Inl ValueError, empty_world)
   \<and> falsy None
   \<and> startup (rejecting_only ''http://[x]:4317'') (rejecting_only ''http://[x]:4317'')
         (Some ''http://collector:4317'') None = Inl ValueError
   \<and> ''http://[x]:4317'' \<noteq> [] \<and> ''api-key:abc123'' \<noteq> []
   \<and> startup (rejecting_only ''http://[x]:4317'') (rejecting_only ''http://[x]:4317'')
         (Some ''http://[x]:4317'') (Some ''api-key:abc123'') = Inl ValueError"
proof -
  note empty = startup_fails_when_unset_or_empty
    [of "Some ''''" "Some ''api-key:abc123''"
        "rejecting_only ''http://[x]:4317''" "rejecting_only ''http://[x]:4317''"
        "home no_fault" empty_world "''api-key:abc123''" "''http://[x]:4317''"]
  note unset = startup_fails_when_unset_or_empty
    [of "Some ''http://collector:4317''" None
        "rejecting_only ''http://[x]:4317''" "rejecting_only ''http://[x]:4317''"
        "home no_fault" empty_world "''api-key:abc123''" "''http://[x]:4317''"]
  have f1: "falsy (Some '''')" by simp
  have f2: "falsy None" by simp
  have n: "''http://[x]:4317'' \<noteq> [] \<and> ''api-key:abc123'' \<noteq> []" by simp
  have r: "\<And>d. rejecting_only ''http://[x]:4317'' ''http://[x]:4317'' d = Some ValueError"
    by (simp add: rejecting_only_def)
  from empty f1
  have 1: "startup (rejecting_only ''http://[x]:4317'') (rejecting_only ''http://[x]:4317'')
             (Some '''') (Some ''api-key:abc123'') = Inl ValueError
           \<and> run_app (rejecting_only ''http://[x]:4317'') (rejecting_only ''http://[x]:4317'')
               (Some '''') (Some ''api-key:abc123'') (home no_fault) empty_world
             = (Inl ValueError, empty_world)"
    by blast
  from unset f2
  have 2: "startup (rejecting_only ''http://[x]:4317'') (rejecting_only ''http://[x]:4317'')
             (Some ''http://collector:4317'') None = Inl ValueError"
    by blast
  from empty n obtain d where
    "startup (rejecting_only ''http://[x]:4317'') (rejecting_only ''http://[x]:4317'')
       (Some ''http://[x]:4317'') (Some ''api-key:abc123'')
     = (case rejecting_only ''http://[x]:4317'' ''http://[x]:4317'' d of
          Some x \<Rightarrow> Inl x
        | None \<Rightarrow>
            (case rejecting_only ''http://[x]:4317'' ''http://[x]:4317'' d of
               Some x \<Rightarrow> Inl x
             | None \<Rightarrow> Inr \<lparr>cfg_endpoint = ''http://[x]:4317'', cfg_headers = d\<rparr>))"
    by blast
  with r
  have 3: "startup (rejecting_only ''http://[x]:4317'') (rejecting_only ''http://[x]:4317'')
             (Some ''http://[x]:4317'') (Some ''api-key:abc123'') = Inl ValueError"
    by simp
  from 1 2 3 f1 f2 n show ?thesis by blast
qed

text \<open>
  C3 as written fails: an endpoint that is no URL and a header string that is no list of
  \<open>key:value\<close> pairs pass the module's check, the parser returns the empty dictionary,
  and with constructors that return for this endpoint start-up returns a configuration.
\<close>

theorem startup_malformed_counterexample:
  "startup (rejecting_only ''http://[x]:4317'') (rejecting_only ''http://[x]:4317'')
     (Some ''not a url'') (Some ''garbage'')
   = Inr \<lparr>cfg_endpoint = ''not a url'', cfg_headers = []\<rparr>"
  by (simp add: startup_def read_config_def headers_dict_def rejecting_only_def)

subsection \<open>The handlers\<close>

lemma empty_world_sel:
  "tasks empty_world = []" "spans empty_world = []" "requests_counter empty_world = []"
  by (simp_all add: empty_world_def)

text \<open>
  C2. Each handler, whatever its input, the state it starts from and the outcome of the
  database calls, adds exactly one measurement to the request counter, of amount 1 and
  labelled with the method and the endpoint of the request (for \<open>delete\<close> the endpoint
  ends with the id in decimal), and adds exactly one span, named \<open>home-request\<close>,
  \<open>add-task\<close> or \<open>delete-task\<close>; earlier measurements and spans are untouched.
\<close>

theorem one_counter_increment_and_one_span:
  "requests_counter (snd (home fails w))
     = requests_counter w @ [(1, [(''method'', ''GET''), (''endpoint'', ''/'')])]
   \<and> (\<exists>s. spans (snd (home fails w)) = spans w @ [s] \<and> span_name s = ''home-request'')
   \<and> requests_counter (snd (add fails form w))
     = requests_counter w @ [(1, [(''method'', ''POST''), (''endpoint'', ''/add'')])]
   \<and> (\<exists>s. spans (snd (add fails form w)) = spans w @ [s] \<and> span_name s = ''add-task'')
   \<and> requests_counter (snd (delete fails task_id w))
     = requests_counter w
       @ [(1, [(''method'', ''GET''), (''endpoint'', ''/delete/'' @ str_int task_id)])]
   \<and> (\<exists>s. spans (snd (delete fails task_id w)) = spans w @ [s]
          \<and> span_name s = ''delete-task'')"
  by (simp add: home_counter home_spans add_counter add_spans delete_counter delete_spans)

theorem one_counter_increment_and_one_span_witness:
  "requests_counter (snd (delete no_fault 42 empty_world))
     = [(1, [(''method'', ''GET''), (''endpoint'', ''/delete/42'')])]
   \<and> (\<exists>s. spans (snd (delete no_fault 42 empty_world)) = [s] \<and> span_name s = ''delete-task'')"
proof -
  have "str_int 42 = ''42''"
    by (simp add: str_int_def)
  with one_counter_increment_and_one_span [of no_fault empty_world "[]" 42]
  show ?thesis by (simp add: empty_world_sel)
qed

text \<open>
  C5. The span a handler opens has had \<open>end()\<close> called on it exactly once when the handler
  is left, and it is the only span the handler touches. This holds for every input and
  every outcome of the database calls, so for the normal return as well as for every
  exception that leaves the handler.
\<close>

theorem span_closed_exactly_once:
  "(\<exists>s. spans (snd (home fails w)) = spans w @ [s] \<and> end_calls s = 1)
   \<and> (\<exists>s. spans (snd (add fails form w)) = spans w @ [s] \<and> end_calls s = 1)
   \<and> (\<exists>s. spans (snd (delete fails task_id w)) = spans w @ [s] \<and> end_calls s = 1)"
  by (simp add: home_spans add_spans delete_spans)

theorem span_closed_exactly_once_witness:
  "fst (add (\<lambda>op. op = Commit) [(''task'', ''buy milk'')] empty_world) = Inl (DatabaseError Commit)
   \<and> (\<exists>s. spans (snd (add (\<lambda>op. op = Commit) [(''task'', ''buy milk'')] empty_world)) = [s]
          \<and> end_calls s = 1)
   \<and> fst (delete (\<lambda>op. op = Commit) 7 empty_world) = Inl AttributeError
   \<and> (\<exists>s. spans (snd (delete (\<lambda>op. op = Commit) 7 empty_world)) = [s] \<and> end_calls s = 1)"
proof -
  have 1: "fst (add (\<lambda>op. op = Commit) [(''task'', ''buy milk'')] empty_world)
           = Inl (DatabaseError Commit)"
    by (simp add: add_fst)
  have 2: "fst (delete (\<lambda>op. op = Commit) 7 empty_world) = Inl AttributeError"
    by (simp add: delete_fst empty_world_sel)
  from span_closed_exactly_once
    [of "\<lambda>op. op = Commit" empty_world "[(''task'', ''buy milk'')]" 7]
  have 3: "(\<exists>s. spans (snd (add (\<lambda>op. op = Commit) [(''task'', ''buy milk'')] empty_world)) = [s]
          \<and> end_calls s = 1)
     \<and> (\<exists>s. spans (snd (delete (\<lambda>op. op = Commit) 7 empty_world)) = [s] \<and> end_calls s = 1)"
    by (simp add: empty_world_sel)
  from 1 2 3 show ?thesis by blast
qed

text \<open>
  C6. For an add request that submits the description \<open>d\<close>, the span of the request, once
  ended, carries \<open>task_description = d\<close> whatever the database does. It carries
  \<open>added_to_db = True\<close> exactly when the write has committed, that is when the table is
  the old table followed by one row with description \<open>d\<close>, which is also exactly when
  the handler returns; when a database call raised, the attribute is absent and the
  table is as it was. Since an attribute set after the end of a span is not recorded,
  both attributes were set before the span closed.
\<close>

theorem add_records_description_and_commit:
  assumes "map_of form ''task'' = Some d"
  shows "\<exists>s. spans (snd (add fails form w)) = spans w @ [s]
           \<and> end_calls s = 1
           \<and> map_of (attributes s) ''task_description'' = Some (AttrStr d)
           \<and> map_of (attributes s) ''added_to_db''
               = (if isl (fst (add fails form w)) then None else Some (AttrBool True))
           \<and> isl (fst (add fails form w)) = (fails SessionAdd \<or> fails Commit)
           \<and> (map_of (attributes s) ''added_to_db'' = Some (AttrBool True))
               = (tasks (snd (add fails form w))
                  = tasks w @ [\<lparr>id' = fresh_id (tasks w), description = d\<rparr>])
           \<and> (map_of (attributes s) ''added_to_db'' = None)
               = (tasks (snd (add fails form w)) = tasks w)"
  using assms by (simp add: add_spans add_fst add_tasks)

theorem add_records_description_and_commit_witness:
  "map_of [(''task'', ''buy milk'')] ''task'' = Some ''buy milk''
   \<and> spans (snd (add no_fault [(''task'', ''buy milk'')] empty_world))
       = [\<lparr>span_name = ''add-task'',
            attributes = [(''task_description'', AttrStr ''buy milk''),
                          (''added_to_db'', AttrBool True)],
            end_calls = 1\<rparr>]
   \<and> (\<exists>s. spans (snd (add no_fault [(''task'', ''buy milk'')] empty_world)) = [s]
          \<and> map_of (attributes s) ''task_description'' = Some (AttrStr ''buy milk'')
          \<and> map_of (attributes s) ''added_to_db'' = Some (AttrBool True)
          \<and> tasks (snd (add no_fault [(''task'', ''buy milk'')] empty_world))
              = [\<lparr>id' = 1, description = ''buy milk''\<rparr>])
   \<and> (\<exists>s. spans (snd (add (\<lambda>op. op = Commit) [(''task'', ''buy milk'')] empty_world)) = [s]
          \<and> map_of (attributes s) ''task_description'' = Some (AttrStr ''buy milk'')
          \<and> map_of (attributes s) ''added_to_db'' = None
          \<and> tasks (snd (add (\<lambda>op. op = Commit) [(''task'', ''buy milk'')] empty_world)) = [])"
proof -
  have h: "map_of [(''task'', ''buy milk'')] ''task'' = Some ''buy milk''"
    by simp
  have r: "\<not> isl (fst (add no_fault [(''task'', ''buy milk'')] empty_world))"
    by (simp add: add_fst no_fault_def)
  have q: "isl (fst (add (\<lambda>op. op = Commit) [(''task'', ''buy milk'')] empty_world))"
    by (simp add: add_fst)
  have i: "fresh_id [] = 1"
    by (simp add: fresh_id_def)
  have s: "spans (snd (add no_fault [(''task'', ''buy milk'')] empty_world))
       = [\<lparr>span_name = ''add-task'',
            attributes = [(''task_description'', AttrStr ''buy milk''),
                          (''added_to_db'', AttrBool True)],
            end_calls = 1\<rparr>]"
    by (simp add: add_spans no_fault_def empty_world_sel)
  from add_records_description_and_commit
    [of "[(''task'', ''buy milk'')]" "''buy milk''" no_fault empty_world, OF h] r i
  have ok: "\<exists>s. spans (snd (add no_fault [(''task'', ''buy milk'')] empty_world)) = [s]
          \<and> map_of (attributes s) ''task_description'' = Some (AttrStr ''buy milk'')
          \<and> map_of (attributes s) ''added_to_db'' = Some (AttrBool True)
          \<and> tasks (snd (add no_fault [(''task'', ''buy milk'')] empty_world))
              = [\<lparr>id' = 1, description = ''buy milk''\<rparr>]"
    by (auto simp: empty_world_sel)
  from add_records_description_and_commit
    [of "[(''task'', ''buy milk'')]" "''buy milk''" "\<lambda>op. op = Commit" empty_world, OF h] q
  have ko: "\<exists>s. spans (snd (add (\<lambda>op. op = Commit) [(''task'', ''buy milk'')] empty_world)) = [s]
          \<and> map_of (attributes s) ''task_description'' = Some (AttrStr ''buy milk'')
          \<and> map_of (attributes s) ''added_to_db'' = None
          \<and> tasks (snd (add (\<lambda>op. op = Commit) [(''task'', ''buy milk'')] empty_world)) = []"
    by (auto simp: empty_world_sel)
  from h s ok ko show ?thesis by blast
qed

text \<open>
  C7. When a database call raises inside a handler, the measurement of the request is on
  the counter all the same: the counter is incremented before the first database call.
\<close>

theorem counter_incremented_when_store_fails:
  "(fst (home fails w) = Inl (DatabaseError op1) \<longrightarrow>
      requests_counter (snd (home fails w))
        = requests_counter w @ [(1, [(''method'', ''GET''), (''endpoint'', ''/'')])])
   \<and> (fst (add fails form w) = Inl (DatabaseError op2) \<longrightarrow>
      requests_counter (snd (add fails form w))
        = requests_counter w @ [(1, [(''method'', ''POST''), (''endpoint'', ''/add'')])])
   \<and> (fst (delete fails task_id w) = Inl (DatabaseError op3) \<longrightarrow>
      requests_counter (snd (delete fails task_id w))
        = requests_counter w
          @ [(1, [(''method'', ''GET''), (''endpoint'', ''/delete/'' @ str_int task_id)])])"
  by (simp add: home_counter add_counter delete_counter)

theorem counter_incremented_when_store_fails_witness:
  "fst (home (\<lambda>op. True) empty_world) = Inl (DatabaseError QueryAll)
   \<and> requests_counter (snd (home (\<lambda>op. True) empty_world))
       = [(1, [(''method'', ''GET''), (''endpoint'', ''/'')])]
   \<and> fst (add (\<lambda>op. True) [(''task'', ''buy milk'')] empty_world) = Inl (DatabaseError SessionAdd)
   \<and> requests_counter (snd (add (\<lambda>op. True) [(''task'', ''buy milk'')] empty_world))
       = [(1, [(''method'', ''POST''), (''endpoint'', ''/add'')])]
   \<and> fst (delete (\<lambda>op. True) 3 empty_world) = Inl (DatabaseError QueryGet)
   \<and> requests_counter (snd (delete (\<lambda>op. True) 3 empty_world))
       = [(1, [(''method'', ''GET''), (''endpoint'', ''/delete/3'')])]"
proof -
  have h: "fst (home (\<lambda>op. True) empty_world) = Inl (DatabaseError QueryAll)"
    by (simp add: home_fst)
  have a: "fst (add (\<lambda>op. True) [(''task'', ''buy milk'')] empty_world)
           = Inl (DatabaseError SessionAdd)"
    by (simp add: add_fst)
  have d: "fst (delete (\<lambda>op. True) 3 empty_world) = Inl (DatabaseError QueryGet)"
    by (simp add: delete_fst)
  have s: "str_int 3 = ''3''"
    by (simp add: str_int_def)
  from counter_incremented_when_store_fails
    [of "\<lambda>op. True" empty_world QueryAll "[(''task'', ''buy milk'')]" SessionAdd 3 QueryGet]
    h a d s
  show ?thesis by (simp add: empty_world_sel)
qed

text \<open>
  C8. After an add request that submits \<open>buy milk\<close> and whose database calls succeed, a
  list request whose query succeeds returns a page rendered from a task list that holds
  a task with the description \<open>buy milk\<close>.
\<close>

theorem add_then_list_roundtrip:
  assumes "map_of form ''task'' = Some ''buy milk''"
    and "\<not> fails SessionAdd" and "\<not> fails Commit" and "\<not> fails' QueryAll"
  shows "\<exists>r w1 ts w2.
           add fails form w = (Inr r, w1)
           \<and> home fails' w1 = (Inr (Rendered ts), w2)
           \<and> ''buy milk'' \<in> set (map description ts)"
proof -
  obtain x w1 where a: "add fails form w = (x, w1)" by (cases "add fails form w")
  obtain y w2 where h: "home fails' w1 = (y, w2)" by (cases "home fails' w1")
  from assms a add_fst [of fails form w] have x: "x = Inr (Redirect ''/'')" by simp
  from assms a add_tasks [of fails form w]
  have t: "tasks w1 = tasks w @ [\<lparr>id' = fresh_id (tasks w), description = ''buy milk''\<rparr>]"
    by simp
  from assms h home_fst [of fails' w1] have y: "y = Inr (Rendered (tasks w1))" by simp
  from t have "''buy milk'' \<in> set (map description (tasks w1))" by simp
  with a h x y show ?thesis by blast
qed

theorem add_then_list_roundtrip_witness:
  "map_of [(''task'', ''buy milk'')] ''task'' = Some ''buy milk''
   \<and> \<not> no_fault SessionAdd \<and> \<not> no_fault Commit \<and> \<not> no_fault QueryAll
   \<and> (\<exists>r w1 ts w2.
         add no_fault [(''task'', ''buy milk'')] empty_world = (Inr r, w1)
         \<and> home no_fault w1 = (Inr (Rendered ts), w2)
         \<and> ''buy milk'' \<in> set (map description ts))"
proof -
  have h1: "map_of [(''task'', ''buy milk'')] ''task'' = Some ''buy milk''" by simp
  have h2: "\<not> no_fault SessionAdd" by (simp add: no_fault_def)
  have h3: "\<not> no_fault Commit" by (simp add: no_fault_def)
  have h4: "\<not> no_fault QueryAll" by (simp add: no_fault_def)
  from add_then_list_roundtrip
    [of "[(''task'', ''buy milk'')]" no_fault no_fault empty_world, OF h1 h2 h3 h4] h1 h2 h3 h4
  show ?thesis by blast
qed

text \<open>
  C10. The add handler checks nothing about the submitted text: for any string \<open>d\<close>
  submitted as \<open>task\<close>, the empty string included, when the database calls succeed the
  handler redirects to the list and the table has gained one row, at the end, whose
  description is \<open>d\<close> unchanged; the rows that were there are as before.
\<close>

theorem add_stores_description_verbatim:
  assumes "map_of form ''task'' = Some d" and "\<not> fails SessionAdd" and "\<not> fails Commit"
  shows "fst (add fails form w) = Inr (Redirect ''/'')
         \<and> tasks (snd (add fails form w))
             = tasks w @ [\<lparr>id' = fresh_id (tasks w), description = d\<rparr>]"
  using assms by (simp add: add_fst add_tasks)

theorem add_stores_description_verbatim_witness:
  "map_of [(''task'', '''')] ''task'' = Some '''' \<and> \<not> no_fault SessionAdd \<and> \<not> no_fault Commit
   \<and> fst (add no_fault [(''task'', '''')] empty_world) = Inr (Redirect ''/'')
   \<and> tasks (snd (add no_fault [(''task'', '''')] empty_world)) = [\<lparr>id' = 1, description = ''''\<rparr>]"
proof -
  have h1: "map_of [(''task'', '''')] ''task'' = Some ''''" by simp
  have h2: "\<not> no_fault SessionAdd" by (simp add: no_fault_def)
  have h3: "\<not> no_fault Commit" by (simp add: no_fault_def)
  from add_stores_description_verbatim
    [of "[(''task'', '''')]" "''''" no_fault empty_world, OF h1 h2 h3] h1 h2 h3
  show ?thesis by (simp add: empty_world_sel fresh_id_def)
qed

text \<open>
  C1, on the code as it is. A delete request for an id that no row has does not return:
  reading \<open>description\<close> off the absent result raises \<open>AttributeError\<close> before the test
  for absence is reached. The span is ended with no attribute on it, the counter has the
  measurement, and the table is unchanged.
\<close>

theorem delete_missing_id_raises:
  "delete no_fault 7 (empty_world\<lparr>tasks := [\<lparr>id' = 1, description = ''buy milk''\<rparr>]\<rparr>)
   = (Inl AttributeError,
      \<lparr>tasks = [\<lparr>id' = 1, description = ''buy milk''\<rparr>],
       session_new = [], session_deleted = [],
       spans = [\<lparr>span_name = ''delete-task'', attributes = [], end_calls = 1\<rparr>],
       requests_counter = [(1, [(''method'', ''GET''), (''endpoint'', ''/delete/7'')])]\<rparr>)"
  by (simp add: delete_def handler_defs no_fault_def empty_world_def str_int_def)

end
